theory Spec2Isabelle
  imports Complex_Main "HOL-Library.Sublist"
begin

chapter \<open>travel-ai-agent: conversation state machine, validation, offer selection, booking\<close>

section \<open>Conversation model (server/src/models/Conversation.js)\<close>

text \<open>
  The schema restricts \<open>currentStage\<close> to eight names; they are the constructors of
  \<open>stage\<close>, in the order of the schema's enum.
\<close>

datatype stage =
  Initial | Search | Selection | Authentication | PassengerDetails
  | AdditionalServices | Payment | Confirmation

text \<open>
  The object literal \<open>validTransitions\<close> of \<open>updateStage\<close> and \<open>canTransitionTo\<close>:
  every stage name is a key, so the fallback \<open>|| []\<close> is never taken.
\<close>

fun validTransitions :: "stage \<Rightarrow> stage list" where
  "validTransitions Initial = [Search]"
| "validTransitions Search = [Selection]"
| "validTransitions Selection = [Authentication, PassengerDetails]"
| "validTransitions Authentication = [PassengerDetails, AdditionalServices]"
| "validTransitions PassengerDetails = [AdditionalServices]"
| "validTransitions AdditionalServices = [Payment]"
| "validTransitions Payment = [Confirmation]"
| "validTransitions Confirmation = []"

text \<open>
  Mongoose tracks which top-level paths of a document were changed since it was loaded or
  last saved; \<open>isModified(path)\<close> reads that set. The paths the methods below touch:
\<close>

datatype path =
  P_currentStage | P_messages | P_flightSearchParams | P_searchResults
  | P_searchHistory | P_refinements

record message =
  role :: string
  content :: string
  timestamp :: int

record searchHistoryItem =
  searchParams :: "string \<rightharpoonup> string"
  searchedAt :: int

record refinementsRec =
  appliedFilters :: "string \<rightharpoonup> string"
  viewedOffers :: "string list"

text \<open>
  Times are milliseconds since the epoch. \<open>searchResults\<close> holds the ids of the stored
  offers, which is all the methods of the model look at.
\<close>

record conversation =
  currentStage :: stage
  flightSearchParams :: "string \<rightharpoonup> string"
  messages :: "message list"
  searchResults :: "string list"
  searchHistory :: "searchHistoryItem list"
  refinements :: "refinementsRec option"
  updatedAt :: int
  expiresAt :: int
  modifiedPaths :: "path set"

definition isModified :: "path \<Rightarrow> conversation \<Rightarrow> bool" where
  "isModified p c = (p \<in> modifiedPaths c)"

definition markModified :: "path \<Rightarrow> conversation \<Rightarrow> conversation" where
  "markModified p c = c\<lparr>modifiedPaths := insert p (modifiedPaths c)\<rparr>"

definition dayMs :: int where
  "dayMs = 24 * 60 * 60 * 1000"

text \<open>
  The \<open>pre('save')\<close> hook: \<open>updatedAt\<close> always; \<open>expiresAt\<close> only when the message log or
  the stage was modified.
\<close>

definition preSave :: "int \<Rightarrow> conversation \<Rightarrow> conversation" where
  "preSave now c =
     (let c1 = c\<lparr>updatedAt := now\<rparr>
      in if isModified P_messages c1 \<or> isModified P_currentStage c1
         then c1\<lparr>expiresAt := now + dayMs\<rparr>
         else c1)"

text \<open>A successful \<open>save()\<close>: the hook runs, the document is written, the change set is reset.\<close>

definition save :: "int \<Rightarrow> conversation \<Rightarrow> conversation" where
  "save now c = (preSave now c)\<lparr>modifiedPaths := {}\<rparr>"

definition addMessage :: "int \<Rightarrow> string \<Rightarrow> string \<Rightarrow> conversation \<Rightarrow> conversation" where
  "addMessage now r txt c =
     save now (markModified P_messages
       (c\<lparr>messages := messages c @ [\<lparr>role = r, content = txt, timestamp = now\<rparr>]\<rparr>))"

text \<open>\<open>updateStage\<close> returns the boolean and the document; it does not save.\<close>

definition updateStage :: "stage \<Rightarrow> conversation \<Rightarrow> bool \<times> conversation" where
  "updateStage newStage c =
     (let currentStageTransitions = validTransitions (currentStage c)
      in if newStage \<in> set currentStageTransitions
         then (True, markModified P_currentStage (c\<lparr>currentStage := newStage\<rparr>))
         else (False, c))"

definition canTransitionTo :: "stage \<Rightarrow> conversation \<Rightarrow> bool" where
  "canTransitionTo targetStage c = (targetStage \<in> set (validTransitions (currentStage c)))"

text \<open>\<open>xs.slice(-n)\<close> for a positive \<open>n\<close>: the last \<open>n\<close> elements (all of them when fewer).\<close>

definition sliceLast :: "nat \<Rightarrow> 'a list \<Rightarrow> 'a list" where
  "sliceLast n xs = drop (length xs - n) xs"

definition updateSearchParams :: "int \<Rightarrow> (string \<rightharpoonup> string) \<Rightarrow> conversation \<Rightarrow> conversation" where
  "updateSearchParams now params c =
     (let merged = flightSearchParams c ++ params;
          c1 = markModified P_flightSearchParams (c\<lparr>flightSearchParams := merged\<rparr>);
          c2 = markModified P_searchHistory
                 (c1\<lparr>searchHistory := searchHistory c1 @ [\<lparr>searchParams = merged, searchedAt = now\<rparr>]\<rparr>);
          c3 = (if length (searchHistory c2) > 10
                then c2\<lparr>searchHistory := sliceLast 10 (searchHistory c2)\<rparr>
                else c2)
      in save now c3)"



text \<open>
  The routes also assign \<open>conversation.searchResults\<close> directly and then call \<open>save()\<close>
  (routes/flights.js).
\<close>

definition setSearchResults :: "int \<Rightarrow> string list \<Rightarrow> conversation \<Rightarrow> conversation" where
  "setSearchResults now rs c = save now (markModified P_searchResults (c\<lparr>searchResults := rs\<rparr>))"

text \<open>
  The routes also change a document directly and then call \<open>save()\<close>:
  \<open>conversation.messages.push(...)\<close>, \<open>conversation.currentStage = ...\<close> and
  \<open>conversation.flightSearchParams = ...\<close> (routes/flights.js and the chat handlers). A push marks
  the array as modified. An assignment marks its path when the value changes; assigning the
  stage a document already has is no change of the stage, and leaves a loaded document as
  it was.
\<close>

definition pushMessage :: "message \<Rightarrow> conversation \<Rightarrow> conversation" where
  "pushMessage m c = markModified P_messages (c\<lparr>messages := messages c @ [m]\<rparr>)"

definition assignStage :: "stage \<Rightarrow> conversation \<Rightarrow> conversation" where
  "assignStage s c =
     (if s = currentStage c then c else markModified P_currentStage (c\<lparr>currentStage := s\<rparr>))"

definition assignSearchParams :: "(string \<rightharpoonup> string) \<Rightarrow> conversation \<Rightarrow> conversation" where
  "assignSearchParams ps c = markModified P_flightSearchParams (c\<lparr>flightSearchParams := ps\<rparr>)"




text \<open>A conversation as the schema's defaults create it at time \<open>t0\<close>.\<close>

definition newConversation :: "int \<Rightarrow> conversation" where
  "newConversation t0 =
     \<lparr>currentStage = Initial, flightSearchParams = Map.empty, messages = [],
      searchResults = [], searchHistory = [], refinements = None,
      updatedAt = t0, expiresAt = t0 + dayMs, modifiedPaths = {}\<rparr>"

text \<open>The edges of the transition graph, as the specification lists them.\<close>

definition stageEdges :: "(stage \<times> stage) list" where
  "stageEdges =
     [(Initial, Search), (Search, Selection),
      (Selection, Authentication), (Selection, PassengerDetails),
      (Authentication, PassengerDetails), (Authentication, AdditionalServices),
      (PassengerDetails, AdditionalServices), (AdditionalServices, Payment),
      (Payment, Confirmation)]"




section \<open>Offers: time-of-day filter and diverse selection\<close>

text \<open>
  What the service throws: an error of the provider, the passenger count mismatch of
  \<open>createOrder\<close> (expected, got), and the TypeError of reading a property of \<open>undefined\<close>.
\<close>

datatype error =
  ProviderError string
  | CountMismatch nat nat
  | TypeError

text \<open>
  The fields of a formatted offer that filtering and selection read. Amounts are the finite
  numbers \<open>parseFloat\<close> gives, as rationals; a departure is a time in milliseconds of local
  wall-clock time; durations are minutes.
\<close>

record slice =
  departureDateTime :: int
  durationMinutes :: int

record offer =
  offer_id :: string
  totalAmount :: rat
  slices :: "slice list"

text \<open>\<open>Date.getHours()\<close> on local milliseconds.\<close>

definition getHours :: "int \<Rightarrow> int" where
  "getHours t = (t div 3600000) mod 24"

definition isDigit :: "char \<Rightarrow> bool" where
  "isDigit c = (c \<in> set ''0123456789'')"

definition digitValue :: "char \<Rightarrow> int" where
  "digitValue c = int (length (takeWhile (\<lambda>d. d \<noteq> c) ''0123456789''))"

definition decimalValue :: "string \<Rightarrow> int" where
  "decimalValue ds = foldl (\<lambda>acc d. 10 * acc + digitValue d) 0 ds"

text \<open>
  \<open>parseInt\<close> on the decimal strings it is given here: leading blanks, an optional sign,
  then the longest run of digits; \<open>None\<close> is \<open>NaN\<close> (no digit). The hexadecimal
  prefix is not modelled.
\<close>

definition jsParseInt :: "string \<Rightarrow> int option" where
  "jsParseInt s =
     (let s1 = dropWhile (\<lambda>c. c = CHR '' '') s;
          neg = (case s1 of c # _ \<Rightarrow> c = CHR ''-'' | [] \<Rightarrow> False);
          s2 = (case s1 of c # r \<Rightarrow> if c = CHR ''-'' \<or> c = CHR ''+'' then r else s1 | [] \<Rightarrow> s1);
          ds = takeWhile isDigit s2
      in if ds = [] then None
         else Some (if neg then - decimalValue ds else decimalValue ds))"

text \<open>\<open>s.split(sep)[0]\<close>\<close>

definition splitFirst :: "char \<Rightarrow> string \<Rightarrow> string" where
  "splitFirst sep s = takeWhile (\<lambda>c. c \<noteq> sep) s"

text \<open>Comparisons of numbers that may be \<open>NaN\<close>: false as soon as one side is.\<close>

definition js_lt :: "int option \<Rightarrow> int option \<Rightarrow> bool" where
  "js_lt a b = (case (a, b) of (Some x, Some y) \<Rightarrow> x < y | _ \<Rightarrow> False)"

definition js_le :: "int option \<Rightarrow> int option \<Rightarrow> bool" where
  "js_le a b = (case (a, b) of (Some x, Some y) \<Rightarrow> x \<le> y | _ \<Rightarrow> False)"

definition js_ge :: "int option \<Rightarrow> int option \<Rightarrow> bool" where
  "js_ge a b = (case (a, b) of (Some x, Some y) \<Rightarrow> x \<ge> y | _ \<Rightarrow> False)"

record timeSpec =
  fromTime :: string
  toTime :: string

text \<open>
  The criteria of \<open>filterOffers\<close> (server/src/services/duffel.service.js) with the
  departure-time entry only: the later stages
  (connections, airlines, price, duration, sort) are each guarded by their own entry and are
  skipped when it is absent.
\<close>

record criteria =
  departureTime :: "timeSpec option"

definition departureTimeMatches :: "timeSpec \<Rightarrow> slice \<Rightarrow> bool" where
  "departureTimeMatches ts firstSlice =
     (let hour = Some (getHours (departureDateTime firstSlice));
          fromHour = jsParseInt (splitFirst CHR '':'' (fromTime ts));
          toHour = jsParseInt (splitFirst CHR '':'' (toTime ts))
      in if js_lt toHour fromHour
         then js_ge hour fromHour \<or> js_le hour toHour
         else js_ge hour fromHour \<and> js_le hour toHour)"

text \<open>
  The time stage reads \<open>offer.slices[0].departureDateTime\<close> of every offer, which throws
  a TypeError for an offer without slices.
\<close>

definition filterOffers :: "offer list \<Rightarrow> criteria \<Rightarrow> error + offer list" where
  "filterOffers offers crit =
     (case departureTime crit of
        None \<Rightarrow> Inr offers
      | Some ts \<Rightarrow>
          if \<exists>offer \<in> set offers. slices offer = [] then Inl TypeError
          else Inr (filter (\<lambda>offer. departureTimeMatches ts (hd (slices offer))) offers))"

text \<open>\<open>selectDiverseOffers\<close> (server/src/routes/flights.js): the sort keys.\<close>

definition totalDuration :: "offer \<Rightarrow> int" where
  "totalDuration a = foldl (\<lambda>total s. total + durationMinutes s) 0 (slices a)"

definition firstDeparture :: "offer \<Rightarrow> int" where
  "firstDeparture a = (case slices a of [] \<Rightarrow> 0 | s # _ \<Rightarrow> departureDateTime s)"

text \<open>\<open>selected.find(s => s.id === offer.id)\<close> is truthy.\<close>

definition hasId :: "offer list \<Rightarrow> string \<Rightarrow> bool" where
  "hasId selected i = (find (\<lambda>s. offer_id s = i) selected \<noteq> None)"

definition pushFound :: "offer option \<Rightarrow> offer list \<Rightarrow> offer list" where
  "pushFound found selected = (case found of None \<Rightarrow> selected | Some x \<Rightarrow> selected @ [x])"

text \<open>The loop that fills the remaining slots from the offers in their order.\<close>

fun fillRemaining :: "nat \<Rightarrow> offer list \<Rightarrow> offer list \<Rightarrow> offer list" where
  "fillRemaining count [] selected = selected"
| "fillRemaining count (offer # rest) selected =
     (if length selected \<ge> count then selected
      else if \<not> hasId selected (offer_id offer)
           then fillRemaining count rest (selected @ [offer])
           else fillRemaining count rest selected)"

text \<open>
  The three sorts are stable sorts by a key (\<open>Array.prototype.sort\<close> with the comparator
  \<open>key(a) - key(b)\<close>). The comparator of the third sort reads \<open>a.slices[0]\<close> of every
  offer it compares, which is every offer as soon as there are two.
\<close>

definition selectDiverseOffers :: "offer list \<Rightarrow> nat \<Rightarrow> error + offer list" where
  "selectDiverseOffers offers count =
     (if length offers \<le> count then Inr offers
      else if length offers \<ge> 2 \<and> (\<exists>offer \<in> set offers. slices offer = []) then Inl TypeError
      else
        let byPrice = sort_key totalAmount offers;
            byDuration = sort_key totalDuration offers;
            byTime = sort_key firstDeparture offers;
            selected1 = pushFound (case byPrice of [] \<Rightarrow> None | x # _ \<Rightarrow> Some x) [];
            fastestUnique = find (\<lambda>offer. \<not> hasId selected1 (offer_id offer)) byDuration;
            selected2 = pushFound fastestUnique selected1;
            differentTimeUnique = find (\<lambda>offer. \<not> hasId selected2 (offer_id offer)) byTime;
            selected3 = pushFound differentTimeUnique selected2;
            selected4 = fillRemaining count offers selected3
        in Inr (take count selected4))"

text \<open>The first-slice departure hour of an offer that has a slice.\<close>

definition departureHour :: "offer \<Rightarrow> int" where
  "departureHour offer = getHours (departureDateTime (hd (slices offer)))"

text \<open>The offers picked before the fill loop, for more offers than \<open>count\<close>.\<close>

definition diversePicks :: "offer list \<Rightarrow> offer list" where
  "diversePicks offers =
     (let selected1 = pushFound (case sort_key totalAmount offers of [] \<Rightarrow> None | x # _ \<Rightarrow> Some x) [];
          selected2 = pushFound (find (\<lambda>offer. \<not> hasId selected1 (offer_id offer))
                                  (sort_key totalDuration offers)) selected1
      in pushFound (find (\<lambda>offer. \<not> hasId selected2 (offer_id offer))
                     (sort_key firstDeparture offers)) selected2)"

section \<open>Booking (server/src/services/duffel.service.js)\<close>

text \<open>
  The provider's offer as \<open>offers.get\<close> returns it, the booking-time passenger, and the
  order request. An absent string field is the empty string; an absent quantity is 0.
\<close>

record offerPassenger =
  passenger_id :: string

record availableService =
  service_id :: string

record rawOffer =
  raw_id :: string
  total_amount :: string
  total_currency :: string
  offer_passengers :: "offerPassenger list"
  available_services :: "availableService list option"

record passenger =
  title :: string
  firstName :: string
  lastName :: string
  dateOfBirth :: string
  gender :: string
  email :: string
  phoneNumber :: string
  passportNumber :: string
  passportExpiry :: string
  nationality :: string

record requestedService =
  req_id :: string
  quantity :: nat

record paymentDetails =
  payment_type :: string
  amount :: "string option"
  currency :: string

record identityDocument =
  unique_identifier :: string
  expires_on :: "string option"
  issuing_country_code :: string
  document_type :: string

record orderPassenger =
  op_id :: string
  phone_number :: string
  op_email :: string
  born_on :: "string option"
  op_title :: string
  op_gender :: string
  given_name :: string
  family_name :: string
  identity_documents :: "identityDocument list option"

record orderPayment =
  pay_type :: string
  pay_currency :: string
  pay_amount :: string

record orderService =
  os_id :: string
  os_quantity :: nat

record orderData =
  selected_offers :: "string list"
  order_passengers :: "orderPassenger list"
  payments :: "orderPayment list"
  services :: "orderService list option"

record order =
  order_id :: string
  order_total_amount :: string
  order_total_currency :: string

record paymentRequest =
  pr_order_id :: string
  pr_type :: string
  pr_amount :: string
  pr_currency :: string

datatype call =
  OffersGet string
  | OrdersCreate orderData
  | OrdersGet string
  | PaymentsCreate paymentRequest

text \<open>
  The inventory provider as the service sees it: what \<open>offers.get\<close> answers for an offer
  id and \<open>orders.create\<close> for an order request (an error, or the order it then holds), the
  orders and payments it holds, and the log of the calls it received.
\<close>

record provider =
  offersGetResult :: "string \<Rightarrow> error + rawOffer"
  ordersCreateResult :: "orderData \<Rightarrow> error + order"
  orders :: "order list"
  paymentsHeld :: "paymentRequest list"
  calls :: "call list"

definition offers_get :: "string \<Rightarrow> provider \<Rightarrow> (error + rawOffer) \<times> provider" where
  "offers_get offerId p = (offersGetResult p offerId, p\<lparr>calls := calls p @ [OffersGet offerId]\<rparr>)"

definition orders_create :: "orderData \<Rightarrow> provider \<Rightarrow> (error + order) \<times> provider" where
  "orders_create d p =
     (let p1 = p\<lparr>calls := calls p @ [OrdersCreate d]\<rparr>
      in case ordersCreateResult p d of
           Inl e \<Rightarrow> (Inl e, p1)
         | Inr ord \<Rightarrow> (Inr ord, p1\<lparr>orders := orders p1 @ [ord]\<rparr>))"

definition orders_get :: "string \<Rightarrow> provider \<Rightarrow> (error + order) \<times> provider" where
  "orders_get orderId p =
     (case find (\<lambda>ord. order_id ord = orderId) (orders p) of
        None \<Rightarrow> Inl (ProviderError ''not_found'')
      | Some ord \<Rightarrow> Inr ord,
      p\<lparr>calls := calls p @ [OrdersGet orderId]\<rparr>)"

definition payments_create :: "paymentRequest \<Rightarrow> provider \<Rightarrow> (error + paymentRequest) \<times> provider" where
  "payments_create req p =
     (let p1 = p\<lparr>calls := calls p @ [PaymentsCreate req]\<rparr>
      in case find (\<lambda>ord. order_id ord = pr_order_id req) (orders p) of
           None \<Rightarrow> (Inl (ProviderError ''not_found''), p1)
         | Some ord \<Rightarrow> (Inr req, p1\<lparr>paymentsHeld := paymentsHeld p1 @ [req]\<rparr>))"

text \<open>
  The detail fan-out of \<open>searchFlights\<close>: one \<open>offers.get\<close> per listed offer, each inside
  its own \<open>try\<close>/\<open>catch\<close> that returns the listed offer when the fetch throws, so that
  \<open>Promise.all\<close> never rejects and keeps the order of the list.
\<close>

fun fetchDetailedOffers :: "rawOffer list \<Rightarrow> provider \<Rightarrow> rawOffer list \<times> provider" where
  "fetchDetailedOffers [] p = ([], p)"
| "fetchDetailedOffers (offer # rest) p =
     (let (r, p1) = offers_get (raw_id offer) p;
          detailed = (case r of Inr fullOffer \<Rightarrow> fullOffer | Inl e \<Rightarrow> offer);
          (ds, p2) = fetchDetailedOffers rest p1
      in (detailed # ds, p2))"

text \<open>\<open>/^\d{4}-\d{2}-\d{2}$/\<close>\<close>

fun isIsoDate :: "string \<Rightarrow> bool" where
  "isIsoDate [y1, y2, y3, y4, c1, m1, m2, c2, d1, d2] =
     (list_all isDigit [y1, y2, y3, y4, m1, m2, d1, d2] \<and> c1 = CHR ''-'' \<and> c2 = CHR ''-'')"
| "isIsoDate _ = False"

text \<open>
  \<open>formatDate\<close> of \<open>createOrder\<close>; \<open>None\<close> is \<open>undefined\<close>. The last resort,
  \<open>new Date(dateInput).toISOString().split('T')[0]\<close> for an input that parses, is the
  parameter \<open>isoDay\<close>.
\<close>

definition formatDate :: "(string \<Rightarrow> string option) \<Rightarrow> string \<Rightarrow> string option" where
  "formatDate isoDay dateInput =
     (if dateInput = [] then None
      else if isIsoDate dateInput then Some dateInput
      else if CHR ''T'' \<in> set dateInput then Some (splitFirst CHR ''T'' dateInput)
      else isoDay dateInput)"

text \<open>\<open>formatPhoneNumber\<close> of \<open>createOrder\<close>; \<open>replace(/\D/g, '')\<close> keeps the digits.\<close>

definition startsWith :: "string \<Rightarrow> string \<Rightarrow> bool" where
  "startsWith pre s = (take (length pre) s = pre)"

definition formatPhoneNumber :: "string \<Rightarrow> string" where
  "formatPhoneNumber number =
     (if number = [] then []
      else
        let cleaned = filter isDigit number;
            cleaned1 = (if \<not> startsWith ''+'' cleaned
                        then ''+'' @ (if length cleaned \<le> 10 then ''31'' @ cleaned else cleaned)
                        else cleaned)
        in cleaned1)"

definition duffelGender :: "passenger \<Rightarrow> string" where
  "duffelGender passenger =
     (if gender passenger = ''male'' \<or> gender passenger = ''m'' then ''m''
      else if gender passenger = ''female'' \<or> gender passenger = ''f'' then ''f''
      else if title passenger = ''Mr'' then ''m''
      else if title passenger \<in> set [''Mrs'', ''Ms'', ''Miss''] then ''f''
      else ''other'')"

definition formatPassenger :: "(string \<Rightarrow> string option) \<Rightarrow> passenger \<Rightarrow> string \<Rightarrow> orderPassenger" where
  "formatPassenger isoDay passenger offerPassengerId =
     \<lparr>op_id = offerPassengerId,
      phone_number = formatPhoneNumber (phoneNumber passenger),
      op_email = email passenger,
      born_on = formatDate isoDay (dateOfBirth passenger),
      op_title = title passenger,
      op_gender = duffelGender passenger,
      given_name = firstName passenger,
      family_name = lastName passenger,
      identity_documents =
        (if passportNumber passenger \<noteq> []
         then Some [\<lparr>unique_identifier = passportNumber passenger,
                      expires_on = formatDate isoDay (passportExpiry passenger),
                      issuing_country_code = nationality passenger,
                      document_type = ''passport''\<rparr>]
         else None)\<rparr>"

text \<open>
  \<open>createOrder\<close>. After the count check the two lists have the same length, so the guard
  inside the passenger map (\<open>index >= offerPassengerIds.length\<close>) never fires and the map
  pairs the lists by position.
\<close>

definition createOrder ::
  "(string \<Rightarrow> string option) \<Rightarrow> string \<Rightarrow> passenger list \<Rightarrow> paymentDetails
     \<Rightarrow> requestedService list \<Rightarrow> provider \<Rightarrow> (error + order) \<times> provider" where
  "createOrder isoDay offerId passengers pd svcs p =
     (case offers_get offerId p of
        (Inl e, p1) \<Rightarrow> (Inl e, p1)
      | (Inr offer, p1) \<Rightarrow>
          let exactAmount = total_amount offer;
              curr = total_currency offer;
              validServices =
                (case available_services offer of
                   None \<Rightarrow> []
                 | Some avail \<Rightarrow>
                     if svcs \<noteq> []
                     then filter (\<lambda>s. req_id s \<in> set (map service_id avail)) svcs
                     else []);
              offerPassengerIds = map passenger_id (offer_passengers offer)
          in if length passengers \<noteq> length offerPassengerIds
             then (Inl (CountMismatch (length offerPassengerIds) (length passengers)), p1)
             else
               let formattedPassengers = map2 (formatPassenger isoDay) passengers offerPassengerIds;
                   formattedServices =
                     map (\<lambda>s. \<lparr>os_id = req_id s,
                                os_quantity = (if quantity s = 0 then 1 else quantity s)\<rparr>)
                       validServices;
                   paymentType = (if payment_type pd = ''card'' then ''balance'' else payment_type pd);
                   od = \<lparr>selected_offers = [offerId],
                         order_passengers = formattedPassengers,
                         payments = [\<lparr>pay_type = paymentType, pay_currency = curr,
                                      pay_amount = exactAmount\<rparr>],
                         services = (if formattedServices \<noteq> [] then Some formattedServices
                                     else None)\<rparr>
               in orders_create od p1)"

text \<open>
  \<open>payForHoldOrder\<close>. \<open>paymentDetails.amount.toString()\<close> throws a TypeError when the
  amount is absent; \<open>paymentDetails.type || 'balance'\<close> takes the default for an absent
  (empty) type.
\<close>

definition payForHoldOrder ::
  "string \<Rightarrow> paymentDetails \<Rightarrow> provider \<Rightarrow> (error + paymentRequest) \<times> provider" where
  "payForHoldOrder orderId pd p =
     (case orders_get orderId p of
        (Inl e, p1) \<Rightarrow> (Inl e, p1)
      | (Inr ord, p1) \<Rightarrow>
          (case amount pd of
             None \<Rightarrow> (Inl TypeError, p1)
           | Some a \<Rightarrow>
               payments_create
                 \<lparr>pr_order_id = orderId,
                  pr_type = (if payment_type pd = [] then ''balance'' else payment_type pd),
                  pr_amount = a,
                  pr_currency = currency pd\<rparr> p1))"

section \<open>Validation (server/src/services/validation.service.js)\<close>

text \<open>
  A date field of the search params as \<open>new Date(v)\<close> reads it: absent (falsy), present
  but not a date (\<open>Invalid Date\<close>), or a time in milliseconds.
\<close>

datatype jsdate = Missing | Invalid | At int

text \<open>The number a \<open>Date\<close> compares as; \<open>None\<close> is \<open>NaN\<close>.\<close>

fun dateValue :: "jsdate \<Rightarrow> int option" where
  "dateValue (At t) = Some t"
| "dateValue _ = None"

record passengerCounts =
  adults :: int
  children :: int
  infants :: int

record stop =
  stop_origin :: string
  stop_destination :: string
  stop_departureDate :: jsdate

record flightSearch =
  p_type :: string
  p_origin :: string
  p_destination :: string
  p_departureDate :: jsdate
  p_returnDate :: jsdate
  p_departureTime :: "timeSpec option"
  p_arrivalTime :: "timeSpec option"
  p_passengers :: "passengerCounts option"
  p_maxConnections :: "int option"
  p_additionalStops :: "stop list option"

datatype vmessage =
  OriginRequired | InvalidOriginFormat | DestinationRequired | InvalidDestinationFormat
  | SameOriginDestination
  | DepartureDateRequired | InvalidDepartureDate | DepartureInPast
  | InvalidReturnDate | ReturnNotAfterDeparture
  | TimeRangeNeedsBoth | InvalidFromTime | InvalidToTime | FromNotBeforeTo
  | ReturnDateRequired
  | StopsRequired | AtLeastOneStop
  | SegmentMismatch nat nat
  | InvalidSegmentOrigin nat | InvalidSegmentDestination nat
  | SegmentNotAfter nat nat
  | PassengersRequired | AdultRequired | ChildrenNegative | InfantsNegative
  | TooManyPassengers | InfantsExceedAdults
  | MaxConnectionsRange

text \<open>An error is its \<open>field\<close> and its \<open>message\<close>; the numbers of a message are its arguments.\<close>

type_synonym verror = "string \<times> vmessage"

datatype vwarning = CloseToDeparture | MoreThanAYearAhead

record validationResult =
  errors :: "verror list"
  warnings :: "vwarning list"
  isValid :: bool

definition isUpperAZ :: "char \<Rightarrow> bool" where
  "isUpperAZ c = (c \<in> set ''ABCDEFGHIJKLMNOPQRSTUVWXYZ'')"

text \<open>\<open>/^[A-Z]{3}$/\<close>\<close>

definition isValidAirportCode :: "string \<Rightarrow> bool" where
  "isValidAirportCode code = (length code = 3 \<and> list_all isUpperAZ code)"

text \<open>\<open>/^([0-1]?[0-9]|2[0-3]):[0-5][0-9]$/\<close>\<close>

fun timeRegexTest :: "string \<Rightarrow> bool" where
  "timeRegexTest [h, c, m1, m2] =
     (isDigit h \<and> c = CHR '':'' \<and> m1 \<in> set ''012345'' \<and> isDigit m2)"
| "timeRegexTest [h1, h2, c, m1, m2] =
     (((h1 \<in> set ''01'' \<and> isDigit h2) \<or> (h1 = CHR ''2'' \<and> h2 \<in> set ''0123''))
      \<and> c = CHR '':'' \<and> m1 \<in> set ''012345'' \<and> isDigit m2)"
| "timeRegexTest _ = False"

text \<open>\<open>timeToMinutes\<close>, called on strings that passed the regex only.\<close>

definition timeToMinutes :: "string \<Rightarrow> int" where
  "timeToMinutes t =
     decimalValue (takeWhile (\<lambda>c. c \<noteq> CHR '':'') t) * 60
     + decimalValue (drop 1 (dropWhile (\<lambda>c. c \<noteq> CHR '':'') t))"

definition validateDates :: "int \<Rightarrow> flightSearch \<Rightarrow> verror list" where
  "validateDates today params =
     (case p_departureDate params of
        Missing \<Rightarrow> [(''departureDate'', DepartureDateRequired)]
      | Invalid \<Rightarrow> [(''departureDate'', InvalidDepartureDate)]
      | At depDate \<Rightarrow>
          (if depDate < today then [(''departureDate'', DepartureInPast)] else [])
          @ (if p_type params = ''round_trip'' \<and> p_returnDate params \<noteq> Missing
             then (case p_returnDate params of
                     At retDate \<Rightarrow>
                       if retDate \<le> depDate then [(''returnDate'', ReturnNotAfterDeparture)] else []
                   | _ \<Rightarrow> [(''returnDate'', InvalidReturnDate)])
             else []))"

definition validateTimeRange :: "timeSpec \<Rightarrow> string \<Rightarrow> verror list" where
  "validateTimeRange timeRange fieldName =
     (if fromTime timeRange = [] \<or> toTime timeRange = []
      then [(fieldName, TimeRangeNeedsBoth)]
      else
        let errs = (if \<not> timeRegexTest (fromTime timeRange) then [(fieldName, InvalidFromTime)] else [])
                   @ (if \<not> timeRegexTest (toTime timeRange) then [(fieldName, InvalidToTime)] else [])
        in if errs = []
           then (if timeToMinutes (fromTime timeRange) \<ge> timeToMinutes (toTime timeRange)
                 then [(fieldName, FromNotBeforeTo)] else [])
           else errs)"

text \<open>
  An entry of \<open>allSegments\<close>. The main segment carries its date as \<open>date\<close>, a stop as
  \<open>departureDate\<close>; the loop reads \<open>date || departureDate\<close>, which is the one field here.
\<close>

record segment =
  seg_origin :: string
  seg_destination :: string
  seg_date :: jsdate

definition mainSegment :: "flightSearch \<Rightarrow> segment" where
  "mainSegment params =
     \<lparr>seg_origin = p_origin params, seg_destination = p_destination params,
      seg_date = p_departureDate params\<rparr>"

definition stopSegment :: "stop \<Rightarrow> segment" where
  "stopSegment s =
     \<lparr>seg_origin = stop_origin s, seg_destination = stop_destination s,
      seg_date = stop_departureDate s\<rparr>"

definition allSegments :: "flightSearch \<Rightarrow> stop list \<Rightarrow> segment list" where
  "allSegments params stops = mainSegment params # map stopSegment stops"

text \<open>The body of the loop of \<open>validateMultiCity\<close> at index \<open>i\<close>.\<close>

definition segmentChecks :: "nat \<Rightarrow> segment \<Rightarrow> segment \<Rightarrow> verror list" where
  "segmentChecks i currentSegment nextSegment =
     (if i > 0 \<and> seg_destination currentSegment \<noteq> seg_origin nextSegment
      then [(''additionalStops'', SegmentMismatch (i + 1) (i + 2))] else [])
     @ (if \<not> isValidAirportCode (seg_origin currentSegment)
        then [(''additionalStops'', InvalidSegmentOrigin (i + 1))] else [])
     @ (if \<not> isValidAirportCode (seg_destination currentSegment)
        then [(''additionalStops'', InvalidSegmentDestination (i + 1))] else [])
     @ (if js_le (dateValue (seg_date nextSegment)) (dateValue (seg_date currentSegment))
        then [(''additionalStops'', SegmentNotAfter (i + 2) (i + 1))] else [])"

text \<open>The loop \<open>for (i = 0; i < allSegments.length - 1; i++)\<close>, from index \<open>i\<close> on.\<close>

fun segmentLoop :: "nat \<Rightarrow> segment list \<Rightarrow> verror list" where
  "segmentLoop i (currentSegment # nextSegment # rest) =
     segmentChecks i currentSegment nextSegment @ segmentLoop (i + 1) (nextSegment # rest)"
| "segmentLoop i _ = []"

definition validateMultiCity :: "flightSearch \<Rightarrow> verror list" where
  "validateMultiCity params =
     (case p_additionalStops params of
        None \<Rightarrow> [(''additionalStops'', StopsRequired)]
      | Some stops \<Rightarrow>
          if stops = [] then [(''additionalStops'', AtLeastOneStop)]
          else segmentLoop 0 (allSegments params stops))"

definition validatePassengers :: "passengerCounts option \<Rightarrow> verror list" where
  "validatePassengers passengers =
     (case passengers of
        None \<Rightarrow> [(''passengers'', PassengersRequired)]
      | Some pc \<Rightarrow>
          (if adults pc < 1 then [(''passengers.adults'', AdultRequired)] else [])
          @ (if children pc < 0 then [(''passengers.children'', ChildrenNegative)] else [])
          @ (if infants pc < 0 then [(''passengers.infants'', InfantsNegative)] else [])
          @ (if adults pc + children pc + infants pc > 9
             then [(''passengers'', TooManyPassengers)] else [])
          @ (if infants pc > adults pc
             then [(''passengers.infants'', InfantsExceedAdults)] else []))"

text \<open>\<open>Math.ceil((depDate - today) / (1000 * 60 * 60 * 24))\<close>, on integers.\<close>

definition daysDiff :: "int \<Rightarrow> int \<Rightarrow> int" where
  "daysDiff depDate now = - ((now - depDate) div dayMs)"

text \<open>
  \<open>validateFlightSearch\<close>. \<open>now\<close> is the clock (\<open>new Date()\<close>) and \<open>today\<close> its midnight
  (\<open>setHours(0, 0, 0, 0)\<close>). An absent origin or destination is the empty string.
\<close>

definition validateFlightSearch :: "int \<Rightarrow> int \<Rightarrow> flightSearch \<Rightarrow> validationResult" where
  "validateFlightSearch now today params =
     (let errs =
            (if p_origin params = [] then [(''origin'', OriginRequired)]
             else if \<not> isValidAirportCode (p_origin params) then [(''origin'', InvalidOriginFormat)]
             else [])
            @ (if p_destination params = [] then [(''destination'', DestinationRequired)]
               else if \<not> isValidAirportCode (p_destination params)
               then [(''destination'', InvalidDestinationFormat)]
               else [])
            @ (if p_origin params = p_destination params
               then [(''destination'', SameOriginDestination)] else [])
            @ validateDates today params
            @ (case p_departureTime params of
                 None \<Rightarrow> [] | Some tr \<Rightarrow> validateTimeRange tr ''departureTime'')
            @ (case p_arrivalTime params of
                 None \<Rightarrow> [] | Some tr \<Rightarrow> validateTimeRange tr ''arrivalTime'')
            @ (if p_type params = ''round_trip'' \<and> p_returnDate params = Missing
               then [(''returnDate'', ReturnDateRequired)] else [])
            @ (if p_type params = ''multi_city'' then validateMultiCity params else [])
            @ validatePassengers (p_passengers params)
            @ (case p_maxConnections params of
                 None \<Rightarrow> []
               | Some mc \<Rightarrow>
                   if mc < 0 \<or> mc > 3 then [(''maxConnections'', MaxConnectionsRange)] else []);
          warns =
            (case dateValue (p_departureDate params) of
               None \<Rightarrow> []
             | Some depDate \<Rightarrow>
                 (if daysDiff depDate now < 2 then [CloseToDeparture] else [])
                 @ (if daysDiff depDate now > 365 then [MoreThanAYearAhead] else []))
      in \<lparr>errors = errs, warnings = warns, isValid = (errs = [])\<rparr>)"

section \<open>Example data\<close>

text \<open>An offer of one slice: id, total amount, departure (local milliseconds), minutes.\<close>

definition offerAt :: "string \<Rightarrow> rat \<Rightarrow> int \<Rightarrow> int \<Rightarrow> offer" where
  "offerAt i a t d =
     \<lparr>offer_id = i, totalAmount = a,
      slices = [\<lparr>departureDateTime = t, durationMinutes = d\<rparr>]\<rparr>"

text \<open>A time of day \<open>h:m\<close> on the first day, in milliseconds.\<close>

definition clock :: "int \<Rightarrow> int \<Rightarrow> int" where
  "clock h m = h * 3600000 + m * 60000"

text \<open>A listed offer (no services) and its detailed form, with three passenger slots.\<close>

definition listedOffer :: "string \<Rightarrow> rawOffer" where
  "listedOffer i =
     \<lparr>raw_id = i, total_amount = ''120.00'', total_currency = ''EUR'',
      offer_passengers = [\<lparr>passenger_id = ''pas_1''\<rparr>, \<lparr>passenger_id = ''pas_2''\<rparr>,
                          \<lparr>passenger_id = ''pas_3''\<rparr>],
      available_services = None\<rparr>"

definition detailedOffer :: "string \<Rightarrow> rawOffer" where
  "detailedOffer i = (listedOffer i)\<lparr>available_services := Some [\<lparr>service_id = ''ase_1''\<rparr>]\<rparr>"

text \<open>
  A provider that knows the offers \<open>off_1\<close> and \<open>off_3\<close>, fails on every other offer id,
  accepts every order request and holds the unpaid order \<open>ord_1\<close> at 120.00 EUR.
\<close>

definition exampleProvider :: provider where
  "exampleProvider =
     \<lparr>offersGetResult =
        (\<lambda>i. if i = ''off_1'' \<or> i = ''off_3'' then Inr (detailedOffer i)
              else Inl (ProviderError ''not_found'')),
      ordersCreateResult =
        (\<lambda>d. Inr \<lparr>order_id = ''ord_2'', order_total_amount = ''120.00'',
                    order_total_currency = ''EUR''\<rparr>),
      orders = [\<lparr>order_id = ''ord_1'', order_total_amount = ''120.00'',
                  order_total_currency = ''EUR''\<rparr>],
      paymentsHeld = [],
      calls = []\<rparr>"

definition passengerNamed :: "string \<Rightarrow> string \<Rightarrow> passenger" where
  "passengerNamed t n =
     \<lparr>title = t, firstName = n, lastName = ''Jansen'', dateOfBirth = ''1990-04-01'',
      gender = [], email = ''a@example.org'', phoneNumber = ''0612345678'',
      passportNumber = [], passportExpiry = [], nationality = []\<rparr>"


text \<open>A multi-city search for one adult leaving on day \<open>day\<close>, and a stop leaving on a day.\<close>

definition multiCityTrip :: "string \<Rightarrow> string \<Rightarrow> int \<Rightarrow> stop list \<Rightarrow> flightSearch" where
  "multiCityTrip a b day stops =
     \<lparr>p_type = ''multi_city'', p_origin = a, p_destination = b,
      p_departureDate = At (day * dayMs), p_returnDate = Missing,
      p_departureTime = None, p_arrivalTime = None,
      p_passengers = Some \<lparr>adults = 1, children = 0, infants = 0\<rparr>,
      p_maxConnections = None,
      p_additionalStops = Some stops\<rparr>"

definition stopOn :: "string \<Rightarrow> string \<Rightarrow> int \<Rightarrow> stop" where
  "stopOn a b day = \<lparr>stop_origin = a, stop_destination = b, stop_departureDate = At (day * dayMs)\<rparr>"


section \<open>Properties of the conversation model\<close>

text \<open>
  C7. \<open>updateStage\<close> succeeds exactly on the edges of the transition graph; on success the
  stage is the target; a rejected transition returns false and leaves the whole document,
  so also \<open>currentStage\<close>, as it was. In particular payment to selection is rejected.
\<close>

theorem updateStage_iff_edge:
  "(fst (updateStage t c) \<longleftrightarrow> (currentStage c, t) \<in> set stageEdges)
   \<and> (fst (updateStage t c) \<longrightarrow> currentStage (snd (updateStage t c)) = t)
   \<and> (\<not> fst (updateStage t c) \<longrightarrow> snd (updateStage t c) = c)
   \<and> validTransitions Confirmation = []
   \<and> (currentStage c = Payment \<longrightarrow>
        updateStage Selection c = (False, c))"
  by (cases "currentStage c"; cases t) (simp_all add: updateStage_def markModified_def stageEdges_def Let_def)

theorem updateStage_iff_edge_witness:
  "fst (updateStage Selection ((newConversation 0)\<lparr>currentStage := Payment\<rparr>)) = False
   \<and> snd (updateStage Selection ((newConversation 0)\<lparr>currentStage := Payment\<rparr>))
       = (newConversation 0)\<lparr>currentStage := Payment\<rparr>
   \<and> fst (updateStage Confirmation ((newConversation 0)\<lparr>currentStage := Payment\<rparr>))
   \<and> currentStage (snd (updateStage Confirmation ((newConversation 0)\<lparr>currentStage := Payment\<rparr>)))
       = Confirmation"
  using updateStage_iff_edge [of Selection "(newConversation 0)\<lparr>currentStage := Payment\<rparr>"]
        updateStage_iff_edge [of Confirmation "(newConversation 0)\<lparr>currentStage := Payment\<rparr>"]
  by (simp add: stageEdges_def newConversation_def)

subsection \<open>What a save does to the expiry and the histories\<close>

lemma expiresAt_save:
  "expiresAt (save now c) =
     (if P_messages \<in> modifiedPaths c \<or> P_currentStage \<in> modifiedPaths c
      then now + dayMs else expiresAt c)"
  by (simp add: save_def preSave_def isModified_def Let_def)

lemma updatedAt_save: "updatedAt (save now c) = now"
  by (simp add: save_def preSave_def Let_def)

lemma searchHistory_save [simp]: "searchHistory (save now c) = searchHistory c"
  by (simp add: save_def preSave_def Let_def)

lemma refinements_save [simp]: "refinements (save now c) = refinements c"
  by (simp add: save_def preSave_def Let_def)

lemma messages_save [simp]: "messages (save now c) = messages c"
  by (simp add: save_def preSave_def Let_def)

lemma currentStage_save [simp]: "currentStage (save now c) = currentStage c"
  by (simp add: save_def preSave_def Let_def)

lemma flightSearchParams_save [simp]: "flightSearchParams (save now c) = flightSearchParams c"
  by (simp add: save_def preSave_def Let_def)

lemma searchResults_save [simp]: "searchResults (save now c) = searchResults c"
  by (simp add: save_def preSave_def Let_def)

lemma save_stage_or_messages:
  "isModified P_messages c \<or> isModified P_currentStage c \<Longrightarrow> expiresAt (save now c) = now + dayMs"
  by (auto simp: expiresAt_save isModified_def)

lemma save_other_paths:
  "\<not> isModified P_messages c \<Longrightarrow> \<not> isModified P_currentStage c \<Longrightarrow>
   expiresAt (save now c) = expiresAt c"
  by (simp add: expiresAt_save isModified_def)

lemma pushMessage_saved:
  "expiresAt (save now (pushMessage m c)) = now + dayMs
   \<and> messages (save now (pushMessage m c)) = messages c @ [m]"
  by (simp add: expiresAt_save pushMessage_def markModified_def)

lemma assignStage_saved:
  "t \<noteq> currentStage c \<Longrightarrow>
   expiresAt (save now (assignStage t c)) = now + dayMs
   \<and> currentStage (save now (assignStage t c)) = t"
  by (simp add: expiresAt_save assignStage_def markModified_def)

lemma addMessage_saved:
  "expiresAt (addMessage now r txt c) = now + dayMs
   \<and> messages (addMessage now r txt c) = messages c @ [\<lparr>role = r, content = txt, timestamp = now\<rparr>]"
  by (simp add: expiresAt_save addMessage_def markModified_def)

lemma updateStage_saved:
  "fst (updateStage t c) \<Longrightarrow>
   expiresAt (save now (snd (updateStage t c))) = now + dayMs
   \<and> currentStage (save now (snd (updateStage t c))) = t"
  by (simp add: expiresAt_save updateStage_def markModified_def Let_def split: if_splits)

lemma updateSearchParams_saved:
  "\<not> isModified P_messages c \<Longrightarrow> \<not> isModified P_currentStage c \<Longrightarrow>
   expiresAt (updateSearchParams now ps c) = expiresAt c
   \<and> updatedAt (updateSearchParams now ps c) = now
   \<and> flightSearchParams (updateSearchParams now ps c) = flightSearchParams c ++ ps"
  by (simp add: expiresAt_save updatedAt_save updateSearchParams_def markModified_def
        isModified_def Let_def)

lemma assignSearchParams_saved:
  "\<not> isModified P_messages c \<Longrightarrow> \<not> isModified P_currentStage c \<Longrightarrow>
   expiresAt (save now (assignSearchParams qs c)) = expiresAt c
   \<and> updatedAt (save now (assignSearchParams qs c)) = now
   \<and> flightSearchParams (save now (assignSearchParams qs c)) = qs"
  by (simp add: expiresAt_save updatedAt_save assignSearchParams_def markModified_def
        isModified_def)

lemma setSearchResults_saved:
  "\<not> isModified P_messages c \<Longrightarrow> \<not> isModified P_currentStage c \<Longrightarrow>
   expiresAt (setSearchResults now rs c) = expiresAt c
   \<and> updatedAt (setSearchResults now rs c) = now
   \<and> searchResults (setSearchResults now rs c) = rs"
  by (simp add: expiresAt_save updatedAt_save setSearchResults_def markModified_def
        isModified_def)












text \<open>
  C8, as the claim states it, fails: saving a change of the search params alone, on a
  conversation created at time 0, at time 5000, leaves \<open>expiresAt\<close> where it was (the hook
  looks at \<open>messages\<close> and \<open>currentStage\<close> only), although the params did change and neither
  the stage nor the message log did.
\<close>

theorem updateSearchParams_expiry_counterexample:
  "expiresAt (updateSearchParams 5000 (Map.empty(''origin'' \<mapsto> ''AMS'')) (newConversation 0))
     = expiresAt (newConversation 0)
   \<and> expiresAt (updateSearchParams 5000 (Map.empty(''origin'' \<mapsto> ''AMS'')) (newConversation 0))
       < 5000 + dayMs
   \<and> flightSearchParams
        (updateSearchParams 5000 (Map.empty(''origin'' \<mapsto> ''AMS'')) (newConversation 0)) ''origin''
       = Some ''AMS''
   \<and> flightSearchParams (newConversation 0) ''origin'' = None
   \<and> currentStage (updateSearchParams 5000 (Map.empty(''origin'' \<mapsto> ''AMS'')) (newConversation 0))
       = currentStage (newConversation 0)
   \<and> messages (updateSearchParams 5000 (Map.empty(''origin'' \<mapsto> ''AMS'')) (newConversation 0))
       = messages (newConversation 0)"
  by (simp add: updateSearchParams_def newConversation_def markModified_def save_def
        preSave_def isModified_def Let_def dayMs_def)

text \<open>
  C8, amended. Every save sets \<open>updatedAt\<close> to the time of the save. Every save of a
  document whose message log or stage was modified sets \<open>expiresAt\<close> to 24 hours after the
  save, and the change is kept: a message appended through \<open>addMessage\<close> or pushed directly
  and then saved, a stage changed through a successful \<open>updateStage\<close> or assigned directly
  and then saved. Every save of a document of which neither was modified leaves \<open>expiresAt\<close>
  as it was: so \<open>updateSearchParams\<close>, a direct assignment of the search params and an
  assignment of the search results, each with its save, persist the change and update
  \<open>updatedAt\<close> but leave \<open>expiresAt\<close> as it was.
\<close>

theorem expiry_refreshed_by_messages_and_stage_only:
  "updatedAt (save now c) = now
   \<and> (isModified P_messages c \<or> isModified P_currentStage c \<longrightarrow>
        expiresAt (save now c) = now + dayMs)
   \<and> (\<not> isModified P_messages c \<and> \<not> isModified P_currentStage c \<longrightarrow>
        expiresAt (save now c) = expiresAt c)
   \<and> expiresAt (save now (pushMessage m c)) = now + dayMs
   \<and> messages (save now (pushMessage m c)) = messages c @ [m]
   \<and> expiresAt (addMessage now r txt c) = now + dayMs
   \<and> messages (addMessage now r txt c)
       = messages c @ [\<lparr>role = r, content = txt, timestamp = now\<rparr>]
   \<and> (t \<noteq> currentStage c \<longrightarrow>
        expiresAt (save now (assignStage t c)) = now + dayMs
        \<and> currentStage (save now (assignStage t c)) = t)
   \<and> (fst (updateStage t c) \<longrightarrow>
        expiresAt (save now (snd (updateStage t c))) = now + dayMs
        \<and> currentStage (save now (snd (updateStage t c))) = t)
   \<and> (\<not> isModified P_messages c \<and> \<not> isModified P_currentStage c \<longrightarrow>
        expiresAt (updateSearchParams now ps c) = expiresAt c
        \<and> updatedAt (updateSearchParams now ps c) = now
        \<and> flightSearchParams (updateSearchParams now ps c) = flightSearchParams c ++ ps
        \<and> expiresAt (save now (assignSearchParams qs c)) = expiresAt c
        \<and> updatedAt (save now (assignSearchParams qs c)) = now
        \<and> flightSearchParams (save now (assignSearchParams qs c)) = qs
        \<and> expiresAt (setSearchResults now rs c) = expiresAt c
        \<and> updatedAt (setSearchResults now rs c) = now
        \<and> searchResults (setSearchResults now rs c) = rs)"
  using updatedAt_save [of now c] save_stage_or_messages [of c now] save_other_paths [of c now]
        pushMessage_saved [of now m c] addMessage_saved [of now r "txt" c]
        assignStage_saved [of t c now] updateStage_saved [of t c now]
        updateSearchParams_saved [of c now ps] assignSearchParams_saved [of c now qs]
        setSearchResults_saved [of c now rs]
  by blast

theorem expiry_refreshed_by_messages_and_stage_only_witness:
  "updatedAt (save 5000 (newConversation 0)) = 5000
   \<and> isModified P_currentStage (assignStage Selection (newConversation 0))
   \<and> expiresAt (save 5000 (assignStage Selection (newConversation 0))) = 5000 + dayMs
   \<and> Selection \<noteq> currentStage (newConversation 0)
   \<and> currentStage (save 5000 (assignStage Selection (newConversation 0))) = Selection
   \<and> fst (updateStage Search (newConversation 0))
   \<and> expiresAt (save 5000 (snd (updateStage Search (newConversation 0)))) = 5000 + dayMs
   \<and> expiresAt (addMessage 5000 ''user'' ''hello'' (newConversation 0)) = 5000 + dayMs
   \<and> \<not> isModified P_messages (newConversation 0)
   \<and> \<not> isModified P_currentStage (newConversation 0)
   \<and> expiresAt (save 5000 (newConversation 0)) = expiresAt (newConversation 0)
   \<and> expiresAt (updateSearchParams 5000 Map.empty (newConversation 0)) = expiresAt (newConversation 0)
   \<and> updatedAt (updateSearchParams 5000 Map.empty (newConversation 0)) = 5000
   \<and> updatedAt (newConversation 0) = 0
   \<and> expiresAt (setSearchResults 5000 [''off_1''] (newConversation 0)) = expiresAt (newConversation 0)
   \<and> searchResults (setSearchResults 5000 [''off_1''] (newConversation 0)) = [''off_1'']"
proof -
  have m: "isModified P_currentStage (assignStage Selection (newConversation 0))"
    and n: "Selection \<noteq> currentStage (newConversation 0)"
    and u: "fst (updateStage Search (newConversation 0))"
    and c: "\<not> isModified P_messages (newConversation 0)"
           "\<not> isModified P_currentStage (newConversation 0)"
    and z: "updatedAt (newConversation 0) = 0"
    by (simp_all add: assignStage_def markModified_def isModified_def updateStage_def
          newConversation_def)
  show ?thesis
    using m n u c z
      expiry_refreshed_by_messages_and_stage_only
        [of 5000 "newConversation 0" "\<lparr>role = ''user'', content = ''hello'', timestamp = 5000\<rparr>"
            "''user''" "''hello''" Search Map.empty Map.empty "[''off_1'']"]
      expiry_refreshed_by_messages_and_stage_only
        [of 5000 "newConversation 0" "\<lparr>role = ''user'', content = ''hello'', timestamp = 5000\<rparr>"
            "''user''" "''hello''" Selection Map.empty Map.empty "[''off_1'']"]
      expiry_refreshed_by_messages_and_stage_only
        [of 5000 "assignStage Selection (newConversation 0)"]
    by blast
qed




section \<open>Properties of offer filtering and selection\<close>

subsection \<open>Time-of-day filter\<close>

lemma departureTimeMatches_parsed:
  assumes "jsParseInt (splitFirst CHR '':'' (fromTime ts)) = Some f"
      and "jsParseInt (splitFirst CHR '':'' (toTime ts)) = Some t"
  shows "departureTimeMatches ts s =
           (if t < f then getHours (departureDateTime s) \<ge> f \<or> getHours (departureDateTime s) \<le> t
            else f \<le> getHours (departureDateTime s) \<and> getHours (departureDateTime s) \<le> t)"
  using assms by (simp add: departureTimeMatches_def js_lt_def js_le_def js_ge_def Let_def)

text \<open>
  C4, as the claim states it, fails at the end of a daytime window: with from 09:00 and to
  17:00 (9 < 17) an offer leaving at 17:30 is kept, although its hour 17 is not below 17.
\<close>

theorem filterOffers_window_end_counterexample:
  "filterOffers [offerAt ''off_a'' 100 (clock 17 30) 60]
     \<lparr>departureTime = Some \<lparr>fromTime = ''09:00'', toTime = ''17:00''\<rparr>\<rparr>
     = Inr [offerAt ''off_a'' 100 (clock 17 30) 60]
   \<and> departureHour (offerAt ''off_a'' 100 (clock 17 30) 60) = 17
   \<and> jsParseInt (splitFirst CHR '':'' ''09:00'') = Some 9
   \<and> jsParseInt (splitFirst CHR '':'' ''17:00'') = Some 17"
  by (simp add: filterOffers_def departureTimeMatches_def departureHour_def offerAt_def clock_def
        getHours_def jsParseInt_def splitFirst_def isDigit_def decimalValue_def digitValue_def
        js_lt_def js_le_def js_ge_def Let_def)

text \<open>
  C4, amended. For offers that each have a slice and a window whose two hours parse to
  \<open>f\<close> and \<open>t\<close>: when \<open>t\<close> is not below \<open>f\<close>, \<open>filterOffers\<close> keeps exactly the offers whose
  first slice departs at an hour in the closed window from \<open>f\<close> to \<open>t\<close> (hour \<open>\<ge> f\<close> and
  hour \<open>\<le> t\<close>); when \<open>t\<close> is below \<open>f\<close> the window wraps midnight and it keeps exactly the
  offers with hour \<open>\<ge> f\<close> or hour \<open>\<le> t\<close>.
\<close>

theorem filterOffers_departure_window:
  assumes "jsParseInt (splitFirst CHR '':'' (fromTime ts)) = Some f"
      and "jsParseInt (splitFirst CHR '':'' (toTime ts)) = Some t"
      and "\<forall>offer \<in> set offers. slices offer \<noteq> []"
  shows "filterOffers offers \<lparr>departureTime = Some ts\<rparr> =
           Inr (filter (\<lambda>offer. if t < f then departureHour offer \<ge> f \<or> departureHour offer \<le> t
                                else f \<le> departureHour offer \<and> departureHour offer \<le> t) offers)"
  using assms(3)
  by (simp add: filterOffers_def departureHour_def departureTimeMatches_parsed [OF assms(1,2)])

theorem filterOffers_departure_window_witness:
  "jsParseInt (splitFirst CHR '':'' ''23:00'') = Some 23
   \<and> jsParseInt (splitFirst CHR '':'' ''05:00'') = Some 5
   \<and> slices (offerAt ''off_night'' 100 (clock 0 30) 60) \<noteq> []
   \<and> slices (offerAt ''off_noon'' 90 (clock 12 0) 60) \<noteq> []
   \<and> filterOffers [offerAt ''off_night'' 100 (clock 0 30) 60, offerAt ''off_noon'' 90 (clock 12 0) 60]
        \<lparr>departureTime = Some \<lparr>fromTime = ''23:00'', toTime = ''05:00''\<rparr>\<rparr>
       = Inr [offerAt ''off_night'' 100 (clock 0 30) 60]"
proof -
  have f: "jsParseInt (splitFirst CHR '':'' (fromTime \<lparr>fromTime = ''23:00'', toTime = ''05:00''\<rparr>)) = Some 23"
    and t: "jsParseInt (splitFirst CHR '':'' (toTime \<lparr>fromTime = ''23:00'', toTime = ''05:00''\<rparr>)) = Some 5"
    by (simp_all add: jsParseInt_def splitFirst_def isDigit_def decimalValue_def digitValue_def)
  have s: "\<forall>offer \<in> set [offerAt ''off_night'' 100 (clock 0 30) 60, offerAt ''off_noon'' 90 (clock 12 0) 60].
             slices offer \<noteq> []"
    by (simp add: offerAt_def)
  show ?thesis
    using f t s filterOffers_departure_window [OF f t s]
    by (simp add: departureHour_def getHours_def offerAt_def clock_def)
qed

subsection \<open>Diverse selection\<close>

lemma hasId_iff: "hasId selected i \<longleftrightarrow> i \<in> offer_id ` set selected"
  by (auto simp: hasId_def find_None_iff)

lemma pushFound_prefix: "prefix selected (pushFound found selected)"
  by (cases found) (simp_all add: pushFound_def)

lemma pushFound_find_set: "set (pushFound (find P xs) selected) \<subseteq> set selected \<union> set xs"
proof (cases "find P xs")
  case None
  then show ?thesis by (simp add: pushFound_def)
next
  case (Some x)
  then have "x \<in> set xs" by (auto simp: find_Some_iff)
  then show ?thesis using Some by (auto simp: pushFound_def)
qed

lemma pushFound_find_distinct:
  assumes "distinct (map offer_id selected)"
  shows "distinct (map offer_id
           (pushFound (find (\<lambda>offer. \<not> hasId selected (offer_id offer)) xs) selected))"
proof (cases "find (\<lambda>offer. \<not> hasId selected (offer_id offer)) xs")
  case None
  then show ?thesis using assms by (simp add: pushFound_def)
next
  case (Some x)
  then have "\<not> hasId selected (offer_id x)" by (auto simp: find_Some_iff)
  then have "offer_id x \<notin> offer_id ` set selected" by (simp add: hasId_iff)
  then show ?thesis using assms Some by (simp add: pushFound_def)
qed

lemma fillRemaining_prefix: "prefix selected (fillRemaining n os selected)"
proof (induction os arbitrary: selected)
  case Nil
  then show ?case by simp
next
  case (Cons a os)
  have "prefix selected (selected @ [a])" by simp
  then have "prefix selected (fillRemaining n os (selected @ [a]))"
    using Cons.IH [of "selected @ [a]"] by (rule prefix_order.trans)
  then show ?case using Cons.IH [of selected] by simp
qed

lemma fillRemaining_set: "set (fillRemaining n os selected) \<subseteq> set selected \<union> set os"
proof (induction os arbitrary: selected)
  case Nil
  then show ?case by simp
next
  case (Cons a os)
  show ?case using Cons.IH [of selected] Cons.IH [of "selected @ [a]"] by auto
qed

lemma fillRemaining_distinct:
  "distinct (map offer_id selected) \<Longrightarrow> distinct (map offer_id (fillRemaining n os selected))"
proof (induction os arbitrary: selected)
  case Nil
  then show ?case by simp
next
  case (Cons a os)
  show ?case
  proof (cases "\<not> length selected \<ge> n \<and> \<not> hasId selected (offer_id a)")
    case True
    then have "distinct (map offer_id (selected @ [a]))"
      using Cons.prems by (simp add: hasId_iff)
    from Cons.IH [OF this] show ?thesis using True by simp
  next
    case False
    then show ?thesis using Cons.IH [OF Cons.prems] Cons.prems by auto
  qed
qed

lemma fillRemaining_full:
  "n \<le> length (fillRemaining n os selected)
   \<or> offer_id ` set os \<subseteq> offer_id ` set (fillRemaining n os selected)"
proof (induction os arbitrary: selected)
  case Nil
  then show ?case by simp
next
  case (Cons a os)
  show ?case
  proof (cases "n \<le> length selected")
    case True
    then show ?thesis by simp
  next
    case notfull: False
    show ?thesis
    proof (cases "hasId selected (offer_id a)")
      case True
      have "set selected \<subseteq> set (fillRemaining n os selected)"
        using fillRemaining_prefix [of selected n os] by (rule set_mono_prefix)
      then have "offer_id a \<in> offer_id ` set (fillRemaining n os selected)"
        using True by (auto simp: hasId_iff)
      then show ?thesis using Cons.IH [of selected] notfull True by auto
    next
      case False
      have "set (selected @ [a]) \<subseteq> set (fillRemaining n os (selected @ [a]))"
        using fillRemaining_prefix [of "selected @ [a]" n os] by (rule set_mono_prefix)
      then have "offer_id a \<in> offer_id ` set (fillRemaining n os (selected @ [a]))"
        by auto
      then show ?thesis using Cons.IH [of "selected @ [a]"] notfull False by auto
    qed
  qed
qed

lemma fillRemaining_length:
  assumes "distinct (map offer_id os)" and "n < length os"
  shows "n \<le> length (fillRemaining n os selected)"
proof (rule ccontr)
  assume neg: "\<not> n \<le> length (fillRemaining n os selected)"
  then have sub: "offer_id ` set os \<subseteq> offer_id ` set (fillRemaining n os selected)"
    using fillRemaining_full [of n os selected] by simp
  have "length os = card (offer_id ` set os)"
    using assms(1) by (metis distinct_card length_map set_map)
  also have "\<dots> \<le> card (offer_id ` set (fillRemaining n os selected))"
    using sub by (simp add: card_mono)
  also have "\<dots> \<le> length (fillRemaining n os selected)"
    by (metis card_length length_map set_map)
  finally show False using neg assms(2) by simp
qed

lemma sort_key_hd_min:
  assumes "xs \<noteq> []"
  shows "hd (sort_key f xs) \<in> set xs \<and> (\<forall>x \<in> set xs. f (hd (sort_key f xs)) \<le> f x)"
proof -
  have ne: "sort_key f xs \<noteq> []" using assms by (metis length_0_conv length_sort)
  then obtain y ys where ys: "sort_key f xs = y # ys" by (cases "sort_key f xs") auto
  have "sorted (map f (y # ys))" using sorted_sort_key [of f xs] ys by simp
  then have "\<forall>z \<in> set (y # ys). f y \<le> f z" by auto
  moreover have "set (y # ys) = set xs" using ys by (metis set_sort)
  ultimately show ?thesis using ys by auto
qed

lemma selectDiverseOffers_more:
  assumes "count < length offers" and "\<forall>offer \<in> set offers. slices offer \<noteq> []"
  shows "selectDiverseOffers offers count
           = Inr (take count (fillRemaining count offers (diversePicks offers)))"
  using assms by (auto simp: selectDiverseOffers_def diversePicks_def Let_def)

lemma diversePicks_props:
  assumes "offers \<noteq> []"
  shows "prefix [hd (sort_key totalAmount offers)] (diversePicks offers)"
    and "distinct (map offer_id (diversePicks offers))"
    and "set (diversePicks offers) \<subseteq> set offers"
proof -
  define p where "p = hd (sort_key totalAmount offers)"
  have ne: "sort_key totalAmount offers \<noteq> []" using assms by (metis length_0_conv length_sort)
  then have s1: "pushFound (case sort_key totalAmount offers of [] \<Rightarrow> None | x # _ \<Rightarrow> Some x) [] = [p]"
    by (cases "sort_key totalAmount offers") (simp_all add: pushFound_def p_def)
  define s2 where "s2 = pushFound (find (\<lambda>offer. \<not> hasId [p] (offer_id offer))
                                  (sort_key totalDuration offers)) [p]"
  have dp: "diversePicks offers = pushFound (find (\<lambda>offer. \<not> hasId s2 (offer_id offer))
                     (sort_key firstDeparture offers)) s2"
    by (simp add: diversePicks_def Let_def s1 s2_def)
  have pin: "p \<in> set offers" using sort_key_hd_min [OF assms, of totalAmount] by (simp add: p_def)
  have "prefix [p] s2" unfolding s2_def by (rule pushFound_prefix)
  moreover have "prefix s2 (diversePicks offers)" unfolding dp by (rule pushFound_prefix)
  ultimately show "prefix [hd (sort_key totalAmount offers)] (diversePicks offers)"
    unfolding p_def by (rule prefix_order.trans)
  have d2: "distinct (map offer_id s2)" unfolding s2_def
    by (rule pushFound_find_distinct) simp
  show "distinct (map offer_id (diversePicks offers))" unfolding dp
    using d2 by (rule pushFound_find_distinct)
  have "set s2 \<subseteq> set [p] \<union> set (sort_key totalDuration offers)" unfolding s2_def
    by (rule pushFound_find_set)
  then have sub2: "set s2 \<subseteq> set offers" using pin by auto
  have "set (diversePicks offers) \<subseteq> set s2 \<union> set (sort_key firstDeparture offers)"
    unfolding dp by (rule pushFound_find_set)
  then show "set (diversePicks offers) \<subseteq> set offers" using sub2 by auto
qed

text \<open>
  C6, amended. For offers with pairwise distinct ids, each with at least one slice, and every
  \<open>n\<close>: \<open>selectDiverseOffers\<close> returns \<open>min n (length offers)\<close> offers of the list, with no
  duplicate id; all the offers when there are at most \<open>n\<close>; and, when there are more than
  \<open>n\<close> and \<open>n\<close> is at least 1, an offer of minimal total amount among them.
\<close>

theorem selectDiverseOffers_size_distinct_cheapest:
  assumes "distinct (map offer_id offers)" and "\<forall>offer \<in> set offers. slices offer \<noteq> []"
  shows "\<exists>res. selectDiverseOffers offers n = Inr res
           \<and> length res = min n (length offers)
           \<and> distinct (map offer_id res)
           \<and> set res \<subseteq> set offers
           \<and> (length offers \<le> n \<longrightarrow> res = offers)
           \<and> (1 \<le> n \<and> n < length offers \<longrightarrow>
                (\<exists>cheapest \<in> set res. \<forall>offer \<in> set offers. totalAmount cheapest \<le> totalAmount offer))"
proof (cases "length offers \<le> n")
  case True
  then have "selectDiverseOffers offers n = Inr offers" by (simp add: selectDiverseOffers_def)
  then show ?thesis using True assms(1) by (simp add: min_def)
next
  case False
  then have more: "n < length offers" by simp
  then have ne: "offers \<noteq> []" by auto
  define sel where "sel = fillRemaining n offers (diversePicks offers)"
  define res where "res = take n sel"
  define p where "p = hd (sort_key totalAmount offers)"
  have r: "selectDiverseOffers offers n = Inr res"
    using selectDiverseOffers_more [OF more assms(2)] by (simp add: res_def sel_def)
  have len: "n \<le> length sel" unfolding sel_def
    using assms(1) more by (rule fillRemaining_length)
  then have l: "length res = min n (length offers)" using more by (simp add: res_def min_def)
  have dsel: "distinct (map offer_id sel)" unfolding sel_def
    using diversePicks_props(2) [OF ne] by (rule fillRemaining_distinct)
  then have d: "distinct (map offer_id res)" by (simp add: res_def take_map [symmetric])
  have "set sel \<subseteq> set (diversePicks offers) \<union> set offers" unfolding sel_def
    by (rule fillRemaining_set)
  then have "set sel \<subseteq> set offers" using diversePicks_props(3) [OF ne] by auto
  then have s: "set res \<subseteq> set offers" using set_take_subset [of n sel] by (auto simp: res_def)
  have "prefix [p] sel" unfolding sel_def p_def
    using diversePicks_props(1) [OF ne] fillRemaining_prefix by (rule prefix_order.trans)
  then obtain zs where zs: "sel = p # zs" by (auto simp: prefix_def)
  have c: "1 \<le> n \<Longrightarrow> p \<in> set res"
  proof -
    assume "1 \<le> n"
    then obtain m where "n = Suc m" by (cases n) auto
    then show "p \<in> set res" by (simp add: res_def zs)
  qed
  have pm: "\<forall>offer \<in> set offers. totalAmount p \<le> totalAmount offer"
    using sort_key_hd_min [OF ne, of totalAmount] by (simp add: p_def)
  show ?thesis using r l d s c pm False by blast
qed

subsection \<open>Diverse selection: examples\<close>

text \<open>
  C6, as the claim states it, fails for \<open>n = 0\<close>: one offer is more than none, the result
  is empty and so holds no offer of minimal amount. It also presupposes a first slice: with
  two offers of which one has no slice, the sort by departure throws.
\<close>

theorem selectDiverseOffers_zero_counterexample:
  "selectDiverseOffers [offerAt ''off_a'' 100 (clock 9 0) 60] 0 = Inr []
   \<and> selectDiverseOffers
        [offerAt ''off_a'' 100 (clock 9 0) 60,
         \<lparr>offer_id = ''off_b'', totalAmount = 80, slices = []\<rparr>] 1 = Inl TypeError"
  by (simp add: selectDiverseOffers_def offerAt_def)

theorem selectDiverseOffers_size_distinct_cheapest_witness:
  "distinct (map offer_id
      [offerAt ''off_a'' 100 (clock 9 0) 60, offerAt ''off_b'' 50 (clock 12 0) 30,
       offerAt ''off_c'' 70 (clock 6 0) 10, offerAt ''off_d'' 70 (clock 5 0) 100,
       offerAt ''off_e'' 10 (clock 7 0) 1000])
   \<and> selectDiverseOffers
        [offerAt ''off_a'' 100 (clock 9 0) 60, offerAt ''off_b'' 50 (clock 12 0) 30,
         offerAt ''off_c'' 70 (clock 6 0) 10, offerAt ''off_d'' 70 (clock 5 0) 100,
         offerAt ''off_e'' 10 (clock 7 0) 1000] 3
       = Inr [offerAt ''off_e'' 10 (clock 7 0) 1000, offerAt ''off_c'' 70 (clock 6 0) 10,
              offerAt ''off_d'' 70 (clock 5 0) 100]
   \<and> length [offerAt ''off_e'' 10 (clock 7 0) 1000, offerAt ''off_c'' 70 (clock 6 0) 10,
              offerAt ''off_d'' 70 (clock 5 0) 100] = min 3 5"
proof -
  let ?offers = "[offerAt ''off_a'' 100 (clock 9 0) 60, offerAt ''off_b'' 50 (clock 12 0) 30,
       offerAt ''off_c'' 70 (clock 6 0) 10, offerAt ''off_d'' 70 (clock 5 0) 100,
       offerAt ''off_e'' 10 (clock 7 0) 1000]"
  have d: "distinct (map offer_id ?offers)" by (simp add: offerAt_def)
  have s: "\<forall>offer \<in> set ?offers. slices offer \<noteq> []" by (simp add: offerAt_def)
  have v: "selectDiverseOffers ?offers 3
       = Inr [offerAt ''off_e'' 10 (clock 7 0) 1000, offerAt ''off_c'' 70 (clock 6 0) 10,
              offerAt ''off_d'' 70 (clock 5 0) 100]"
    by code_simp
  obtain res where r: "selectDiverseOffers ?offers 3 = Inr res"
    and l: "length res = min 3 (length ?offers)"
    using selectDiverseOffers_size_distinct_cheapest [OF d s, of 3] by blast
  from r v have "res = [offerAt ''off_e'' 10 (clock 7 0) 1000, offerAt ''off_c'' 70 (clock 6 0) 10,
              offerAt ''off_d'' 70 (clock 5 0) 100]" by simp
  with l have "length [offerAt ''off_e'' 10 (clock 7 0) 1000, offerAt ''off_c'' 70 (clock 6 0) 10,
              offerAt ''off_d'' 70 (clock 5 0) 100] = min 3 (length ?offers)" by simp
  then show ?thesis using d v by simp
qed

section \<open>Properties of booking\<close>

subsection \<open>Phone numbers and the detail fan-out\<close>

lemma formatPhoneNumber_plus_test_dead:
  "formatPhoneNumber s =
     (if s = [] then []
      else if length (filter isDigit s) \<le> 10 then ''+31'' @ filter isDigit s
      else ''+'' @ filter isDigit s)"
proof -
  have "\<not> startsWith ''+'' (filter isDigit s)"
  proof (cases "filter isDigit s")
    case Nil
    then show ?thesis by (simp add: startsWith_def)
  next
    case (Cons c cs)
    then have "c \<in> set (filter isDigit s)" by simp
    then have "isDigit c" by simp
    then have "c \<noteq> CHR ''+''" by (auto simp: isDigit_def)
    then show ?thesis using Cons by (simp add: startsWith_def)
  qed
  then show ?thesis by (simp add: formatPhoneNumber_def Let_def)
qed

text \<open>
  C5 says that a number with a leading plus sign never gets the default country code. The
  code gives it one whenever the number has at most ten digits: the digits-only filter
  removes the plus sign before \<open>startsWith('+')\<close> looks for it. The Norwegian number
  +47 21234567 comes out with 31 in front of its own country code.
\<close>

theorem formatPhoneNumber_plus_gets_country_code:
  "formatPhoneNumber ''+4721234567'' = ''+314721234567''"
  by (simp add: formatPhoneNumber_def startsWith_def isDigit_def)

lemma fetchDetailedOffers_map:
  "fst (fetchDetailedOffers offers p) =
     map (\<lambda>offer. case offersGetResult p (raw_id offer) of Inr fullOffer \<Rightarrow> fullOffer | Inl e \<Rightarrow> offer) offers"
proof (induction offers arbitrary: p)
  case Nil
  then show ?case by simp
next
  case (Cons a offers)
  have "offersGetResult (p\<lparr>calls := calls p @ [OffersGet (raw_id a)]\<rparr>) = offersGetResult p" by simp
  then show ?case using Cons.IH [of "p\<lparr>calls := calls p @ [OffersGet (raw_id a)]\<rparr>"]
    by (auto simp: offers_get_def split: prod.splits)
qed

subsection \<open>Booking\<close>

text \<open>
  C1. When \<open>offers.get\<close> returns the offer and the passenger array's length differs from
  the number of the offer's passenger slots, \<open>createOrder\<close> fails with the count-mismatch
  error; the only call the provider received is that \<open>offers.get\<close>, so no order-creation
  call was issued, and the orders the provider holds are unchanged.
\<close>

theorem createOrder_count_mismatch:
  assumes "offersGetResult p offerId = Inr offer"
      and "length passengers \<noteq> length (offer_passengers offer)"
  shows "fst (createOrder isoDay offerId passengers pd svcs p)
           = Inl (CountMismatch (length (offer_passengers offer)) (length passengers))
       \<and> calls (snd (createOrder isoDay offerId passengers pd svcs p))
           = calls p @ [OffersGet offerId]
       \<and> orders (snd (createOrder isoDay offerId passengers pd svcs p)) = orders p"
  using assms by (simp add: createOrder_def offers_get_def Let_def)

theorem createOrder_count_mismatch_witness:
  "offersGetResult exampleProvider ''off_1'' = Inr (detailedOffer ''off_1'')
   \<and> length [passengerNamed ''Mr'' ''Jan'', passengerNamed ''Mrs'' ''Eva'']
       \<noteq> length (offer_passengers (detailedOffer ''off_1''))
   \<and> fst (createOrder (\<lambda>d. None) ''off_1'' [passengerNamed ''Mr'' ''Jan'', passengerNamed ''Mrs'' ''Eva'']
            \<lparr>payment_type = ''balance'', amount = None, currency = ''EUR''\<rparr> [] exampleProvider)
       = Inl (CountMismatch 3 2)
   \<and> calls (snd (createOrder (\<lambda>d. None) ''off_1'' [passengerNamed ''Mr'' ''Jan'', passengerNamed ''Mrs'' ''Eva'']
            \<lparr>payment_type = ''balance'', amount = None, currency = ''EUR''\<rparr> [] exampleProvider))
       = [OffersGet ''off_1'']
   \<and> orders (snd (createOrder (\<lambda>d. None) ''off_1'' [passengerNamed ''Mr'' ''Jan'', passengerNamed ''Mrs'' ''Eva'']
            \<lparr>payment_type = ''balance'', amount = None, currency = ''EUR''\<rparr> [] exampleProvider))
       = orders exampleProvider"
proof -
  have g: "offersGetResult exampleProvider ''off_1'' = Inr (detailedOffer ''off_1'')"
    by (simp add: exampleProvider_def)
  have l: "length [passengerNamed ''Mr'' ''Jan'', passengerNamed ''Mrs'' ''Eva'']
             \<noteq> length (offer_passengers (detailedOffer ''off_1''))"
    by (simp add: detailedOffer_def listedOffer_def)
  show ?thesis
    using g l createOrder_count_mismatch [OF g l, of "\<lambda>d. None"
            "\<lparr>payment_type = ''balance'', amount = None, currency = ''EUR''\<rparr>" "[]"]
    by (simp add: detailedOffer_def listedOffer_def exampleProvider_def)
qed

text \<open>With as many passengers as slots the order request is issued, after the offer fetch.\<close>

lemma createOrder_matching_count_calls:
  assumes "offersGetResult p offerId = Inr offer"
      and "length passengers = length (offer_passengers offer)"
  shows "\<exists>d. calls (snd (createOrder isoDay offerId passengers pd svcs p))
               = calls p @ [OffersGet offerId, OrdersCreate d]"
  using assms
  by (simp add: createOrder_def offers_get_def orders_create_def Let_def split: sum.splits)

text \<open>
  C3: \<open>payForHoldOrder\<close> does read the order before paying, but submits the amount and
  currency of its argument. The order \<open>ord_1\<close> stands at 120.00 EUR; paying it with the
  details 80.00 USD submits 80.00 USD.
\<close>

theorem payForHoldOrder_submits_caller_amount:
  "fst (orders_get ''ord_1'' exampleProvider)
     = Inr \<lparr>order_id = ''ord_1'', order_total_amount = ''120.00'', order_total_currency = ''EUR''\<rparr>
   \<and> calls (snd (payForHoldOrder ''ord_1''
              \<lparr>payment_type = [], amount = Some ''80.00'', currency = ''USD''\<rparr> exampleProvider))
       = [OrdersGet ''ord_1'',
          PaymentsCreate \<lparr>pr_order_id = ''ord_1'', pr_type = ''balance'',
                          pr_amount = ''80.00'', pr_currency = ''USD''\<rparr>]"
  by (simp add: payForHoldOrder_def orders_get_def payments_create_def exampleProvider_def Let_def)

text \<open>Whatever the order read back says, the payment request carries the caller's figures.\<close>

lemma payForHoldOrder_request:
  assumes "fst (orders_get orderId p) = Inr ord" and "amount pd = Some a"
  shows "calls (snd (payForHoldOrder orderId pd p))
           = calls p @ [OrdersGet orderId,
                        PaymentsCreate \<lparr>pr_order_id = orderId,
                          pr_type = (if payment_type pd = [] then ''balance'' else payment_type pd),
                          pr_amount = a, pr_currency = currency pd\<rparr>]"
  using assms
  by (auto simp: payForHoldOrder_def orders_get_def payments_create_def Let_def
           split: option.splits)

text \<open>
  C10. The detail fan-out returns as many offers as it was given, in their order: the
  detailed offer where \<open>offers.get\<close> succeeds, the listed offer itself where it fails.
\<close>

theorem fetchDetailedOffers_same_length:
  "length (fst (fetchDetailedOffers offers p)) = length offers
   \<and> fst (fetchDetailedOffers offers p) =
       map (\<lambda>offer. case offersGetResult p (raw_id offer) of
                       Inr fullOffer \<Rightarrow> fullOffer
                     | Inl e \<Rightarrow> offer) offers"
  by (simp add: fetchDetailedOffers_map)

theorem fetchDetailedOffers_same_length_witness:
  "fst (fetchDetailedOffers [listedOffer ''off_1'', listedOffer ''off_2'', listedOffer ''off_3'']
          exampleProvider)
     = [detailedOffer ''off_1'', listedOffer ''off_2'', detailedOffer ''off_3'']
   \<and> offersGetResult exampleProvider ''off_2'' = Inl (ProviderError ''not_found'')"
  using fetchDetailedOffers_same_length
          [of "[listedOffer ''off_1'', listedOffer ''off_2'', listedOffer ''off_3'']" exampleProvider]
  by (simp add: exampleProvider_def listedOffer_def)

section \<open>Properties of validation\<close>

subsection \<open>Multi-city validation\<close>

lemma segmentLoop_contains:
  "k + 1 < length segs \<Longrightarrow>
   set (segmentChecks (i + k) (segs ! k) (segs ! (k + 1))) \<subseteq> set (segmentLoop i segs)"
proof (induction i segs arbitrary: k rule: segmentLoop.induct)
  case (1 i currentSegment nextSegment rest)
  show ?case
  proof (cases k)
    case 0
    then show ?thesis by simp
  next
    case (Suc k')
    then have "k' + 1 < length (nextSegment # rest)" using "1.prems" by simp
    from "1.IH" [OF this] show ?thesis using Suc by auto
  qed
qed simp_all

lemma segmentChecks_mismatch:
  "(f, SegmentMismatch a b) \<in> set (segmentChecks i cur nxt) \<Longrightarrow> 0 < i \<and> a = i + 1"
  by (auto simp: segmentChecks_def split: if_splits)

lemma segmentLoop_mismatch:
  "(f, SegmentMismatch a b) \<in> set (segmentLoop i segs) \<Longrightarrow> 2 \<le> a"
proof (induction i segs rule: segmentLoop.induct)
  case (1 i currentSegment nextSegment rest)
  then show ?case using segmentChecks_mismatch [of f a b i currentSegment nextSegment] by auto
qed simp_all

lemma validateDates_no_mismatch: "(f, SegmentMismatch a b) \<notin> set (validateDates today params)"
  by (auto simp: validateDates_def split: jsdate.splits if_splits)

lemma validateTimeRange_no_mismatch: "(f, SegmentMismatch a b) \<notin> set (validateTimeRange tr n)"
  by (auto simp: validateTimeRange_def Let_def split: if_splits)

lemma validatePassengers_no_mismatch: "(f, SegmentMismatch a b) \<notin> set (validatePassengers ps)"
  by (auto simp: validatePassengers_def split: option.splits if_splits)

lemma validateMultiCity_mismatch:
  "(f, SegmentMismatch a b) \<in> set (validateMultiCity params) \<Longrightarrow> 2 \<le> a"
  by (auto simp: validateMultiCity_def dest: segmentLoop_mismatch split: option.splits if_splits)

lemma validateFlightSearch_mismatch:
  assumes "(f, SegmentMismatch a b) \<in> set (errors (validateFlightSearch now today params))"
  shows "2 \<le> a"
proof -
  from assms have "(f, SegmentMismatch a b) \<in> set (validateMultiCity params)"
    by (auto simp: validateFlightSearch_def Let_def validateDates_no_mismatch
          validateTimeRange_no_mismatch validatePassengers_no_mismatch
          split: option.splits if_splits)
  then show ?thesis by (rule validateMultiCity_mismatch)
qed

lemma validateMultiCity_in_validateFlightSearch:
  "p_type params = ''multi_city'' \<Longrightarrow>
   set (validateMultiCity params) \<subseteq> set (errors (validateFlightSearch now today params))"
  by (auto simp: validateFlightSearch_def Let_def)

text \<open>
  C2, amended. For a multi-city search with at least one additional stop,
  \<open>validateFlightSearch\<close> reports a continuity error for every additional stop whose
  destination differs from the origin of the stop after it (segments \<open>i + 1\<close> and \<open>i + 2\<close>
  for \<open>i > 0\<close>); it never reports one for the main segment and the first stop; and it
  reports an error for every adjacent pair of segments whose departure dates, both
  dates, are not strictly increasing.
\<close>

theorem validateFlightSearch_multi_city_chain:
  assumes "p_type params = ''multi_city''"
      and "p_additionalStops params = Some stops"
      and "stops \<noteq> []"
  shows "(\<forall>i. 0 < i \<and> i + 1 < length (allSegments params stops)
              \<and> seg_destination (allSegments params stops ! i)
                  \<noteq> seg_origin (allSegments params stops ! (i + 1))
            \<longrightarrow> (''additionalStops'', SegmentMismatch (i + 1) (i + 2))
                  \<in> set (errors (validateFlightSearch now today params)))
       \<and> (''additionalStops'', SegmentMismatch 1 2)
            \<notin> set (errors (validateFlightSearch now today params))
       \<and> (\<forall>i a b. i + 1 < length (allSegments params stops)
              \<and> seg_date (allSegments params stops ! i) = At a
              \<and> seg_date (allSegments params stops ! (i + 1)) = At b
              \<and> b \<le> a
            \<longrightarrow> (''additionalStops'', SegmentNotAfter (i + 2) (i + 1))
                  \<in> set (errors (validateFlightSearch now today params)))"
proof -
  let ?segs = "allSegments params stops"
  let ?errs = "set (errors (validateFlightSearch now today params))"
  have loop: "set (segmentLoop 0 ?segs) \<subseteq> ?errs"
    using validateMultiCity_in_validateFlightSearch [OF assms(1), of now today] assms(2,3)
    by (simp add: validateMultiCity_def)
  have chk: "set (segmentChecks i (?segs ! i) (?segs ! (i + 1))) \<subseteq> ?errs"
    if "i + 1 < length ?segs" for i
    using segmentLoop_contains [OF that, of 0] loop by auto
  have one: "(''additionalStops'', SegmentMismatch (i + 1) (i + 2)) \<in> ?errs"
    if "0 < i" "i + 1 < length ?segs"
       "seg_destination (?segs ! i) \<noteq> seg_origin (?segs ! (i + 1))" for i
  proof -
    have "(''additionalStops'', SegmentMismatch (i + 1) (i + 2))
            \<in> set (segmentChecks i (?segs ! i) (?segs ! (i + 1)))"
      using that(1,3) by (simp add: segmentChecks_def)
    then show ?thesis using chk [OF that(2)] by auto
  qed
  have two: "(''additionalStops'', SegmentMismatch 1 2) \<notin> ?errs"
    using validateFlightSearch_mismatch [of "''additionalStops''" 1 2 now today params] by auto
  have three: "(''additionalStops'', SegmentNotAfter (i + 2) (i + 1)) \<in> ?errs"
    if "i + 1 < length ?segs" "seg_date (?segs ! i) = At a"
       "seg_date (?segs ! (i + 1)) = At b" "b \<le> a" for i a b
  proof -
    have "(''additionalStops'', SegmentNotAfter (i + 2) (i + 1))
            \<in> set (segmentChecks i (?segs ! i) (?segs ! (i + 1)))"
      using that(2,3,4) by (simp add: segmentChecks_def js_le_def)
    then show ?thesis using chk [OF that(1)] by auto
  qed
  show ?thesis using one two three by blast
qed


text \<open>
  C2, as the claim states it, fails: the loop compares destination and next origin for
  \<open>i > 0\<close> only. JFK to LHR on day 10, then CDG to JFK on day 12, validated at time 0: the
  first stop leaves from CDG, not from LHR, and there is no error at all.
\<close>

theorem validateFlightSearch_first_stop_counterexample:
  "errors (validateFlightSearch 0 0 (multiCityTrip ''JFK'' ''LHR'' 10 [stopOn ''CDG'' ''JFK'' 12])) = []
   \<and> isValid (validateFlightSearch 0 0 (multiCityTrip ''JFK'' ''LHR'' 10 [stopOn ''CDG'' ''JFK'' 12]))
   \<and> p_destination (multiCityTrip ''JFK'' ''LHR'' 10 [stopOn ''CDG'' ''JFK'' 12]) = ''LHR''
   \<and> stop_origin (stopOn ''CDG'' ''JFK'' 12) = ''CDG''"
  by (simp add: validateFlightSearch_def multiCityTrip_def stopOn_def validateDates_def
      validateMultiCity_def allSegments_def mainSegment_def stopSegment_def segmentChecks_def
      validatePassengers_def isValidAirportCode_def isUpperAZ_def js_le_def dayMs_def
      daysDiff_def Let_def)

theorem validateFlightSearch_multi_city_chain_witness:
  "p_type (multiCityTrip ''JFK'' ''LHR'' 10 [stopOn ''LHR'' ''CDG'' 12, stopOn ''AMS'' ''JFK'' 11])
     = ''multi_city''
   \<and> (''additionalStops'', SegmentMismatch 2 3)
       \<in> set (errors (validateFlightSearch 0 0
            (multiCityTrip ''JFK'' ''LHR'' 10 [stopOn ''LHR'' ''CDG'' 12, stopOn ''AMS'' ''JFK'' 11])))
   \<and> (''additionalStops'', SegmentNotAfter 3 2)
       \<in> set (errors (validateFlightSearch 0 0
            (multiCityTrip ''JFK'' ''LHR'' 10 [stopOn ''LHR'' ''CDG'' 12, stopOn ''AMS'' ''JFK'' 11])))
   \<and> (''additionalStops'', SegmentMismatch 1 2)
       \<notin> set (errors (validateFlightSearch 0 0
            (multiCityTrip ''JFK'' ''LHR'' 10 [stopOn ''LHR'' ''CDG'' 12, stopOn ''AMS'' ''JFK'' 11])))"
proof -
  let ?stops = "[stopOn ''LHR'' ''CDG'' 12, stopOn ''AMS'' ''JFK'' 11]"
  let ?params = "multiCityTrip ''JFK'' ''LHR'' 10 ?stops"
  have t: "p_type ?params = ''multi_city''" and s: "p_additionalStops ?params = Some ?stops"
    and n: "?stops \<noteq> []"
    by (simp_all add: multiCityTrip_def)
  have segs: "allSegments ?params ?stops =
      [\<lparr>seg_origin = ''JFK'', seg_destination = ''LHR'', seg_date = At (10 * dayMs)\<rparr>,
       \<lparr>seg_origin = ''LHR'', seg_destination = ''CDG'', seg_date = At (12 * dayMs)\<rparr>,
       \<lparr>seg_origin = ''AMS'', seg_destination = ''JFK'', seg_date = At (11 * dayMs)\<rparr>]"
    by (simp add: allSegments_def mainSegment_def stopSegment_def multiCityTrip_def stopOn_def)
  note chain = validateFlightSearch_multi_city_chain [OF t s n, of 0 0]
  have e: "(1::nat) + 1 = 2" "(1::nat) + 2 = 3" by simp_all
  have a: "(''additionalStops'', SegmentMismatch 2 3)
             \<in> set (errors (validateFlightSearch 0 0 ?params))"
  proof -
    have "0 < (1::nat) \<and> 1 + 1 < length (allSegments ?params ?stops)
          \<and> seg_destination (allSegments ?params ?stops ! 1)
                \<noteq> seg_origin (allSegments ?params ?stops ! (1 + 1))"
      by (simp add: segs)
    then have "(''additionalStops'', SegmentMismatch (1 + 1) (1 + 2))
                 \<in> set (errors (validateFlightSearch 0 0 ?params))"
      using chain by blast
    then show ?thesis by (simp only: e)
  qed
  have b: "(''additionalStops'', SegmentNotAfter 3 2)
             \<in> set (errors (validateFlightSearch 0 0 ?params))"
  proof -
    have "1 + 1 < length (allSegments ?params ?stops)
          \<and> seg_date (allSegments ?params ?stops ! 1) = At (12 * dayMs)
          \<and> seg_date (allSegments ?params ?stops ! (1 + 1)) = At (11 * dayMs)
          \<and> 11 * dayMs \<le> 12 * dayMs"
      by (simp add: segs dayMs_def)
    then have "(''additionalStops'', SegmentNotAfter (1 + 2) (1 + 1))
                 \<in> set (errors (validateFlightSearch 0 0 ?params))"
      using chain by blast
    then show ?thesis by (simp only: e)
  qed
  have c: "(''additionalStops'', SegmentMismatch 1 2)
             \<notin> set (errors (validateFlightSearch 0 0 ?params))"
    using chain by blast
  show ?thesis using t a b c by blast
qed

end
